theory Spec2Isabelle
  imports Complex_Main "HOL-Library.Word"
begin

section \<open>Bounding-box transforms of bbox_transform.py\<close>

text \<open>
  The functions of \<^verbatim>\<open>src/xinshuo_math/python/bbox_transform.py\<close> work on numpy arrays
  of shape (N, 4). An array is modelled by the list of its rows and a row by its four
  fields, so the shape (N, 4) is part of the type. Array entries are real numbers:
  \<^verbatim>\<open>+\<close>, \<^verbatim>\<open>-\<close>, \<^verbatim>\<open>*\<close> and the division by a float are the exact operations. The
  wrap-around of int64 arrays and the rounding of float64 arrays are written out for the
  two format conversions, whose round trip turns on them (the conversions on int64 and
  float64 arrays, below); elsewhere they are not part of the model.

  Every \<^verbatim>\<open>assert\<close> of the source is a branch that returns an error value; the name of
  the error tells which assertion failed.
\<close>

type_synonym box = "real \<times> real \<times> real \<times> real"

datatype error =
    InvalidBoxFormat
  | InvalidImageSize
  | MissingImageDimensions
  | AssertionError
  | TypeError
  | ValueError
  | IndexError
  | NameError
  | NonFinite

definition and_then :: "error + 'a \<Rightarrow> ('a \<Rightarrow> error + 'b) \<Rightarrow> error + 'b" where
  "and_then r f = (case r of Inl e \<Rightarrow> Inl e | Inr v \<Rightarrow> f v)"

subsection \<open>The helpers of the module private\<close>

text \<open>
  Modelled from the spec: \<^verbatim>\<open>safe_bbox\<close> is imported from the module \<^verbatim>\<open>private\<close>, which
  is not among the sources. The spec describes it as the utility that validates its
  input and coerces it to a uniform N x 4 numeric matrix. The input of the model is a
  list of four-field rows already, so there is nothing to reject and the matrix is the
  input.
\<close>

definition safe_bbox :: "box list \<Rightarrow> bool \<Rightarrow> error + box list" where
  "safe_bbox bboxes_in debug = Inr bboxes_in"

text \<open>
  Modelled from the spec: \<^verbatim>\<open>bboxcheck_TLBR\<close> (module \<^verbatim>\<open>private\<close>, not among the
  sources) tests the ordering invariant of the TLBR format, x1 \<le> x2 and y1 \<le> y2, on
  every row.
\<close>

definition bboxcheck_TLBR :: "box list \<Rightarrow> bool" where
  "bboxcheck_TLBR np_bboxes = list_all (\<lambda>(x1, y1, x2, y2). x1 \<le> x2 \<and> y1 \<le> y2) np_bboxes"

text \<open>
  Modelled from the spec: \<^verbatim>\<open>bboxcheck_TLWH\<close> (module \<^verbatim>\<open>private\<close>, not among the
  sources) tests the invariant of the TLWH format, w \<ge> 0 and h \<ge> 0, on every row.
\<close>

definition bboxcheck_TLWH :: "box list \<Rightarrow> bool" where
  "bboxcheck_TLWH np_bboxes = list_all (\<lambda>(x, y, w, h). 0 \<le> w \<and> 0 \<le> h) np_bboxes"

subsection \<open>Format transform\<close>

definition bbox_TLBR2TLWH :: "box list \<Rightarrow> bool \<Rightarrow> error + box list" where
  "bbox_TLBR2TLWH bboxes_in debug =
     and_then (safe_bbox bboxes_in debug) (\<lambda>np_bboxes.
       if debug \<and> \<not> bboxcheck_TLBR np_bboxes then Inl InvalidBoxFormat
       else Inr (map (\<lambda>(x1, y1, x2, y2). (x1, y1, x2 - x1, y2 - y1)) np_bboxes))"

definition bbox_TLWH2TLBR :: "box list \<Rightarrow> bool \<Rightarrow> error + box list" where
  "bbox_TLWH2TLBR bboxes_in debug =
     and_then (safe_bbox bboxes_in debug) (\<lambda>np_bboxes.
       if debug \<and> \<not> bboxcheck_TLWH np_bboxes then Inl InvalidBoxFormat
       else Inr (map (\<lambda>(x, y, w, h). (x, y, w + x, h + y)) np_bboxes))"

subsection \<open>Format transform on int64 and float64 arrays\<close>

text \<open>
  The arithmetic of a numpy array is that of its dtype. An array made from a list of
  Python integers has dtype int64: \<^verbatim>\<open>-\<close> and \<^verbatim>\<open>+\<close> wrap around modulo 2^64 and the
  comparisons are signed. An array made from floats has dtype float64: each operation
  returns the double nearest to the exact result (ties to the even mantissa), or an
  infinity when that is out of range. The two format conversions are stated a second
  time for an array of either dtype, the dtype supplying subtraction, addition,
  comparison and zero; the tests of the format compare as the array does.
\<close>

record 'a dtype =
  dt_sub :: "'a \<Rightarrow> 'a \<Rightarrow> 'a"
  dt_add :: "'a \<Rightarrow> 'a \<Rightarrow> 'a"
  dt_le :: "'a \<Rightarrow> 'a \<Rightarrow> bool"
  dt_zero :: 'a

definition int64 :: "64 word dtype" where
  "int64 = \<lparr>dt_sub = (\<lambda>a b. a - b), dt_add = (\<lambda>a b. a + b),
            dt_le = (\<lambda>a b. sint a \<le> sint b), dt_zero = 0\<rparr>"

text \<open>
  A double is a finite number, an infinity or NaN. The doubles near a number x with
  2^e \<le> |x| < 2^(e+1) are the multiples of 2^(e-52), and of 2^(-1074) below 2^(-1022);
  a result whose rounded magnitude reaches 2^1024 is an infinity. The sign of zero is
  not kept: no comparison distinguishes -0.0 from 0.0.
\<close>

datatype float64 = Finite real | PosInf | NegInf | NaN

definition round_half_even :: "real \<Rightarrow> int" where
  "round_half_even y =
     (let n = \<lfloor>y\<rfloor>; d = y - real_of_int n
      in if d < 1 / 2 then n else if 1 / 2 < d then n + 1 else if even n then n else n + 1)"

definition float64_quantum :: "real \<Rightarrow> real" where
  "float64_quantum x = 2 powr (real_of_int (max \<lfloor>log 2 \<bar>x\<bar>\<rfloor> (- 1022)) - 52)"

definition float64_round :: "real \<Rightarrow> float64" where
  "float64_round x =
     (if x = 0 then Finite 0
      else let q = float64_quantum x; r = real_of_int (round_half_even (x / q)) * q
           in if 2 ^ 1024 \<le> r then PosInf else if r \<le> - (2 ^ 1024) then NegInf else Finite r)"

fun float64_add :: "float64 \<Rightarrow> float64 \<Rightarrow> float64" where
  "float64_add (Finite a) (Finite b) = float64_round (a + b)"
| "float64_add NaN _ = NaN"
| "float64_add _ NaN = NaN"
| "float64_add PosInf NegInf = NaN"
| "float64_add NegInf PosInf = NaN"
| "float64_add PosInf _ = PosInf"
| "float64_add _ PosInf = PosInf"
| "float64_add NegInf _ = NegInf"
| "float64_add _ NegInf = NegInf"

fun float64_neg :: "float64 \<Rightarrow> float64" where
  "float64_neg (Finite a) = Finite (- a)"
| "float64_neg PosInf = NegInf"
| "float64_neg NegInf = PosInf"
| "float64_neg NaN = NaN"

definition float64_sub :: "float64 \<Rightarrow> float64 \<Rightarrow> float64" where
  "float64_sub a b = float64_add a (float64_neg b)"

fun float64_le :: "float64 \<Rightarrow> float64 \<Rightarrow> bool" where
  "float64_le (Finite a) (Finite b) = (a \<le> b)"
| "float64_le NaN _ = False"
| "float64_le _ NaN = False"
| "float64_le NegInf _ = True"
| "float64_le _ PosInf = True"
| "float64_le (Finite a) NegInf = False"
| "float64_le PosInf _ = False"

definition float64 :: "float64 dtype" where
  "float64 = \<lparr>dt_sub = float64_sub, dt_add = float64_add, dt_le = float64_le,
              dt_zero = Finite 0\<rparr>"

text \<open>
  Modelled from the spec: \<^verbatim>\<open>bboxcheck_TLBR\<close> and \<^verbatim>\<open>bboxcheck_TLWH\<close> (module \<^verbatim>\<open>private\<close>,
  not among the sources) on an array of the given dtype: x1 \<le> x2 and y1 \<le> y2, and
  0 \<le> w and 0 \<le> h, in every row. \<^verbatim>\<open>safe_bbox\<close> returns the rows as they are.
\<close>

definition bboxcheck_TLBR_dtype :: "'a dtype \<Rightarrow> ('a \<times> 'a \<times> 'a \<times> 'a) list \<Rightarrow> bool" where
  "bboxcheck_TLBR_dtype dt np_bboxes =
     list_all (\<lambda>(x1, y1, x2, y2). dt_le dt x1 x2 \<and> dt_le dt y1 y2) np_bboxes"

definition bboxcheck_TLWH_dtype :: "'a dtype \<Rightarrow> ('a \<times> 'a \<times> 'a \<times> 'a) list \<Rightarrow> bool" where
  "bboxcheck_TLWH_dtype dt np_bboxes =
     list_all (\<lambda>(x, y, w, h). dt_le dt (dt_zero dt) w \<and> dt_le dt (dt_zero dt) h) np_bboxes"

definition bbox_TLBR2TLWH_dtype ::
  "'a dtype \<Rightarrow> ('a \<times> 'a \<times> 'a \<times> 'a) list \<Rightarrow> bool \<Rightarrow> error + ('a \<times> 'a \<times> 'a \<times> 'a) list" where
  "bbox_TLBR2TLWH_dtype dt np_bboxes debug =
     (if debug \<and> \<not> bboxcheck_TLBR_dtype dt np_bboxes then Inl InvalidBoxFormat
      else Inr (map (\<lambda>(x1, y1, x2, y2). (x1, y1, dt_sub dt x2 x1, dt_sub dt y2 y1)) np_bboxes))"

definition bbox_TLWH2TLBR_dtype ::
  "'a dtype \<Rightarrow> ('a \<times> 'a \<times> 'a \<times> 'a) list \<Rightarrow> bool \<Rightarrow> error + ('a \<times> 'a \<times> 'a \<times> 'a) list" where
  "bbox_TLWH2TLBR_dtype dt np_bboxes debug =
     (if debug \<and> \<not> bboxcheck_TLWH_dtype dt np_bboxes then Inl InvalidBoxFormat
      else Inr (map (\<lambda>(x, y, w, h). (x, y, dt_add dt w x, dt_add dt h y)) np_bboxes))"

subsection \<open>Clipping\<close>

text \<open>
  \<^verbatim>\<open>isinteger\<close> is imported from \<^verbatim>\<open>xinshuo_miscellaneous\<close>, which is not among the
  sources; the clipping functions take it as their first parameter. The first assertion
  of the debug block is the test of the image size, the second the test of the format.
\<close>

definition clip_bboxes_TLBR ::
  "(real \<Rightarrow> bool) \<Rightarrow> box list \<Rightarrow> real \<Rightarrow> real \<Rightarrow> bool \<Rightarrow> error + box list" where
  "clip_bboxes_TLBR isinteger bboxes_in im_width im_height debug =
     and_then (safe_bbox bboxes_in debug) (\<lambda>np_bboxes.
       if debug \<and> \<not> (isinteger im_width \<and> isinteger im_height) then Inl InvalidImageSize
       else if debug \<and> \<not> bboxcheck_TLBR np_bboxes then Inl InvalidBoxFormat
       else Inr (map (\<lambda>(x1, y1, x2, y2).
              (max (min x1 im_width) 0, max (min y1 im_height) 0,
               max (min x2 im_width) 0, max (min y2 im_height) 0)) np_bboxes))"

definition clip_bboxes_TLWH ::
  "(real \<Rightarrow> bool) \<Rightarrow> box list \<Rightarrow> real \<Rightarrow> real \<Rightarrow> bool \<Rightarrow> error + box list" where
  "clip_bboxes_TLWH isinteger bboxes_in im_width im_height debug =
     and_then (safe_bbox bboxes_in debug) (\<lambda>np_bboxes.
       if debug \<and> \<not> (isinteger im_width \<and> isinteger im_height) then Inl InvalidImageSize
       else if debug \<and> \<not> bboxcheck_TLWH np_bboxes then Inl InvalidBoxFormat
       else
         and_then (bbox_TLWH2TLBR np_bboxes debug) (\<lambda>bboxes_TLBR.
         and_then (clip_bboxes_TLBR isinteger bboxes_TLBR im_width im_height debug)
           (\<lambda>clipped_bboxes_TLBR. bbox_TLBR2TLWH clipped_bboxes_TLBR debug)))"

text \<open>
  The size test in the words of the spec: the image width and height must be
  non-negative integers. It is one of the tests that can stand for \<^verbatim>\<open>isinteger\<close>.
\<close>

definition nonneg_integer :: "real \<Rightarrow> bool" where
  "nonneg_integer x = (x \<in> \<int> \<and> 0 \<le> x)"

subsection \<open>Centre crop\<close>

text \<open>
  The file is Python 2 (it calls \<^verbatim>\<open>xrange\<close>, on the quotient \<^verbatim>\<open>all_boxes.shape[1] / 4\<close>, and
  imports no division from \<^verbatim>\<open>__future__\<close>): \<^verbatim>\<open>/\<close> between two integers, and between an
  array of integer dtype and an integer, is the floor division; with a float operand it is
  the true division. A number is therefore an integer or a float. \<^verbatim>\<open>np.ceil\<close> returns a
  float, which for an integer argument is the argument itself.

  The input of \<^verbatim>\<open>get_center_crop_bbox\<close> has two columns (crop width and height) or four
  (centre x, centre y, crop width and height); the two shapes are the two constructors, and
  the entries of one array are all integers or all floats.
  Modelled from the spec: \<^verbatim>\<open>safe_center_bbox\<close> and \<^verbatim>\<open>iscenterbbox\<close> are not among the
  sources; they coerce and accept exactly these two shapes, so the model has no branch
  for them.

  \<^verbatim>\<open>np.hstack\<close> of the float columns xmin and ymin with the crop sizes is a float array.
  \<^verbatim>\<open>astype('int64')\<close> drops the fractional part of a float (rounding toward zero); a float
  outside the range of int64 becomes -2^63 (the result of the conversion instruction of
  x86-64).
\<close>

datatype scalar = PyInt int | PyFloat real

definition scalar_value :: "scalar \<Rightarrow> real" where
  "scalar_value s = (case s of PyInt n \<Rightarrow> real_of_int n | PyFloat x \<Rightarrow> x)"

text \<open>\<^verbatim>\<open>s / 2\<close>, and \<^verbatim>\<open>np.ceil(s / 2)\<close>.\<close>

definition half :: "scalar \<Rightarrow> real" where
  "half s = (case s of PyInt n \<Rightarrow> real_of_int (n div 2) | PyFloat x \<Rightarrow> x / 2)"

definition ceil_half :: "scalar \<Rightarrow> real" where
  "ceil_half s = real_of_int \<lceil>half s\<rceil>"

datatype center_bboxes =
    CropSize "(scalar \<times> scalar) list"
  | CenterCrop "(scalar \<times> scalar \<times> scalar \<times> scalar) list"

definition astype_int64 :: "real \<Rightarrow> 64 word" where
  "astype_int64 x =
     (let t = (if 0 \<le> x then \<lfloor>x\<rfloor> else \<lceil>x\<rceil>)
      in if - (2 ^ 63) \<le> t \<and> t < 2 ^ 63 then word_of_int t else word_of_int (- (2 ^ 63)))"

fun get_center_crop_bbox ::
  "center_bboxes \<Rightarrow> scalar option \<Rightarrow> scalar option \<Rightarrow> bool
     \<Rightarrow> error + (64 word \<times> 64 word \<times> 64 word \<times> 64 word) list" where
  "get_center_crop_bbox (CenterCrop np_center_bboxes) im_width im_height debug =
     Inr (map (\<lambda>(center_x, center_y, crop_width, crop_height).
            (astype_int64 (scalar_value center_x - ceil_half crop_width),
             astype_int64 (scalar_value center_y - ceil_half crop_height),
             astype_int64 (scalar_value crop_width),
             astype_int64 (scalar_value crop_height))) np_center_bboxes)"
| "get_center_crop_bbox (CropSize np_center_bboxes) im_width im_height debug =
     (case (im_width, im_height) of
        (Some w, Some h) \<Rightarrow>
          Inr (map (\<lambda>(crop_width, crop_height).
                 (astype_int64 (ceil_half w - ceil_half crop_width),
                  astype_int64 (ceil_half h - ceil_half crop_height),
                  astype_int64 (scalar_value crop_width),
                  astype_int64 (scalar_value crop_height))) np_center_bboxes)
      | _ \<Rightarrow> if debug then Inl MissingImageDimensions else Inl TypeError)"

subsection \<open>Regression targets\<close>

text \<open>
  \<^verbatim>\<open>bbox_transform\<close> and \<^verbatim>\<open>bbox_transform_inv\<close> index the columns of their arguments
  directly. The deltas of \<^verbatim>\<open>bbox_transform_inv\<close> have 4 K columns, read in strides of
  four (\<^verbatim>\<open>0::4\<close> to \<^verbatim>\<open>3::4\<close>): a row is the list of its K groups (dx, dy, dw, dh). The
  column count is kept beside the rows, since an array without rows still has one.

  numpy combines arrays of different lengths by broadcasting: equal lengths go
  elementwise, an array of length one is repeated, anything else raises ValueError.

  Where numpy would produce nan or inf (a division by zero, the logarithm of a number
  that is not positive) the model returns \<open>NonFinite\<close>: these values are no real numbers.
\<close>

record ndarray =
  shape1 :: nat
  rows :: "box list list"

definition broadcast :: "'a list \<Rightarrow> 'b list \<Rightarrow> error + ('a \<times> 'b) list" where
  "broadcast xs ys =
     (if length xs = length ys then Inr (zip xs ys)
      else if length xs = 1 then Inr (map (\<lambda>y. (hd xs, y)) ys)
      else if length ys = 1 then Inr (map (\<lambda>x. (x, hd ys)) xs)
      else Inl ValueError)"

definition targets_finite :: "box \<times> box \<Rightarrow> bool" where
  "targets_finite p =
     (case p of ((ex1, ey1, ex2, ey2), (gx1, gy1, gx2, gy2)) \<Rightarrow>
        ex2 - ex1 + 1 \<noteq> 0 \<and> ey2 - ey1 + 1 \<noteq> 0 \<and>
        0 < (gx2 - gx1 + 1) / (ex2 - ex1 + 1) \<and> 0 < (gy2 - gy1 + 1) / (ey2 - ey1 + 1))"

definition targets :: "box \<times> box \<Rightarrow> box" where
  "targets p =
     (case p of ((ex1, ey1, ex2, ey2), (gx1, gy1, gx2, gy2)) \<Rightarrow>
        let ex_widths = ex2 - ex1 + 1;
            ex_heights = ey2 - ey1 + 1;
            ex_ctr_x = ex1 + 0.5 * ex_widths;
            ex_ctr_y = ey1 + 0.5 * ex_heights;
            gt_widths = gx2 - gx1 + 1;
            gt_heights = gy2 - gy1 + 1;
            gt_ctr_x = gx1 + 0.5 * gt_widths;
            gt_ctr_y = gy1 + 0.5 * gt_heights
        in ((gt_ctr_x - ex_ctr_x) / ex_widths, (gt_ctr_y - ex_ctr_y) / ex_heights,
            ln (gt_widths / ex_widths), ln (gt_heights / ex_heights)))"

definition bbox_transform :: "box list \<Rightarrow> box list \<Rightarrow> error + ndarray" where
  "bbox_transform ex_rois gt_rois =
     and_then (broadcast ex_rois gt_rois) (\<lambda>pairs.
       if list_all targets_finite pairs
       then Inr \<lparr>shape1 = 4, rows = map (\<lambda>p. [targets p]) pairs\<rparr>
       else Inl NonFinite)"

definition pred_box :: "box \<Rightarrow> box \<Rightarrow> box" where
  "pred_box b d =
     (case (b, d) of ((x1, y1, x2, y2), (dx, dy, dw, dh)) \<Rightarrow>
        let widths = x2 - x1 + 1;
            heights = y2 - y1 + 1;
            ctr_x = x1 + 0.5 * widths;
            ctr_y = y1 + 0.5 * heights;
            pred_ctr_x = dx * widths + ctr_x;
            pred_ctr_y = dy * heights + ctr_y;
            pred_w = exp dw * widths;
            pred_h = exp dh * heights
        in (pred_ctr_x - 0.5 * pred_w, pred_ctr_y - 0.5 * pred_h,
            pred_ctr_x + 0.5 * pred_w, pred_ctr_y + 0.5 * pred_h))"

text \<open>
  The deltas are multiplied with one column of anchor sizes (broadcast over the rows)
  and the product is stored into an array of the shape of the deltas. Both succeed when
  there are as many anchors as rows of deltas, or one anchor. With \<open>debug\<close> the function
  first prints \<^verbatim>\<open>deltas[0, 0:4]\<close>, an IndexError when the deltas have no row.
\<close>

definition bbox_transform_inv :: "box list \<Rightarrow> ndarray \<Rightarrow> bool \<Rightarrow> error + ndarray" where
  "bbox_transform_inv boxes deltas debug =
     (if length boxes = 0 then Inr \<lparr>shape1 = shape1 deltas, rows = []\<rparr>
      else if debug \<and> rows deltas = [] then Inl IndexError
      else if length boxes = length (rows deltas) then
        Inr \<lparr>shape1 = shape1 deltas,
             rows = map (\<lambda>(b, ds). map (pred_box b) ds) (zip boxes (rows deltas))\<rparr>
      else if length boxes = 1 then
        Inr \<lparr>shape1 = shape1 deltas,
             rows = map (\<lambda>ds. map (pred_box (hd boxes)) ds) (rows deltas)\<rparr>
      else Inl ValueError)"

subsection \<open>Enlarging a box\<close>

text \<open>
  \<^verbatim>\<open>bbox_enlarge\<close> takes the larger of two arrays with the builtin \<^verbatim>\<open>max\<close> of Python,
  not with \<^verbatim>\<open>np.maximum\<close>. \<^verbatim>\<open>max(a, b)\<close> evaluates \<^verbatim>\<open>b > a\<close>, an array of booleans, and
  asks for its truth value: that of the single entry of an array of length one, False
  for an array without entries (numpy warns that this case is deprecated), and a
  ValueError for a longer array. The result is one of the two arrays as a whole.
\<close>

definition truth_value :: "bool list \<Rightarrow> error + bool" where
  "truth_value bs = (case bs of [] \<Rightarrow> Inr False | [b] \<Rightarrow> Inr b | _ \<Rightarrow> Inl ValueError)"

definition py_max :: "real list \<Rightarrow> real list \<Rightarrow> error + real list" where
  "py_max a b = and_then (truth_value (map2 (\<lambda>x y. x < y) a b)) (\<lambda>t. Inr (if t then b else a))"

text \<open>
  The value of the array that \<^verbatim>\<open>bbox_enlarge\<close> returns. The source calls
  \<^verbatim>\<open>bboxcheck_TLBR\<close> on the array itself (there is no \<^verbatim>\<open>safe_bbox\<close> here).
\<close>

definition bbox_enlarge ::
  "box list \<Rightarrow> real \<Rightarrow> real option \<Rightarrow> real option \<Rightarrow> real \<Rightarrow> real option \<Rightarrow> real option \<Rightarrow> bool
     \<Rightarrow> error + box list" where
  "bbox_enlarge bbox ratio width_ratio height_ratio min_length min_width min_height debug =
     (if debug \<and> \<not> bboxcheck_TLBR bbox then Inl InvalidBoxFormat
      else
        let cur_width = map (\<lambda>(x1, y1, x2, y2). x2 - x1) bbox;
            cur_height = map (\<lambda>(x1, y1, x2, y2). y2 - y1) bbox;
            (rw, rh) = (case (width_ratio, height_ratio) of
                          (Some wr, Some hr) \<Rightarrow> (wr, hr) | _ \<Rightarrow> (ratio, ratio));
            (mw, mh) = (case (min_height, min_width) of
                          (Some h, Some w) \<Rightarrow> (w, h) | _ \<Rightarrow> (min_length, min_length))
        in and_then (py_max (map (\<lambda>c. c * rw) cur_width) (map (\<lambda>c. mw - c) cur_width)) (\<lambda>width.
           and_then (py_max (map (\<lambda>c. c * rh) cur_height) (map (\<lambda>c. mh - c) cur_height)) (\<lambda>height.
             Inr (map (\<lambda>((x1, y1, x2, y2), w, h). (x1 - w / 2, y1 - h / 2, x2 + w / 2, y2 + h / 2))
                    (zip bbox (zip width height))))))"

subsection \<open>Centres and points\<close>





subsection \<open>Rotation\<close>






subsection \<open>Arrays as objects\<close>

























section \<open>Properties\<close>

lemma and_then_simps:
  "and_then (Inl e) f = Inl e" "and_then (Inr v) f = f v"
  by (simp_all add: and_then_def)

subsection \<open>Format transform\<close>

lemma TLBR2TLWH_is_TLWH:
  "bboxcheck_TLBR b \<Longrightarrow>
   bboxcheck_TLWH (map (\<lambda>(x1, y1, x2, y2). (x1, y1, x2 - x1, y2 - y1)) b)"
  by (induction b) (auto simp: bboxcheck_TLBR_def bboxcheck_TLWH_def)

lemma TLWH2TLBR_is_TLBR:
  "bboxcheck_TLWH b \<Longrightarrow>
   bboxcheck_TLBR (map (\<lambda>(x, y, w, h). (x, y, w + x, h + y)) b)"
  by (induction b) (auto simp: bboxcheck_TLBR_def bboxcheck_TLWH_def)

lemma TLWH_of_TLBR_back:
  "map (\<lambda>(x, y, w, h). (x, y, w + x, h + y))
     (map (\<lambda>(x1, y1, x2, y2). (x1, y1, x2 - x1, y2 - y1)) b) = (b :: box list)"
  by (induction b) auto

subsection \<open>Format transform on int64 and float64 arrays\<close>

lemma sint_sub_nonneg:
  fixes a b :: "64 word"
  assumes "sint b \<le> sint a"
  shows "(0 \<le> sint (a - b)) = (sint a - sint b < 2 ^ 63)"
proof -
  let ?d = "sint a - sint b"
  have s: "sint (a - b) = signed_take_bit 63 ?d"
    by (simp add: sint_word_ariths)
  show ?thesis
  proof (cases "?d < 2 ^ 63")
    case True
    with assms have "signed_take_bit 63 ?d = ?d"
      by (intro signed_take_bit_int_eq_self) simp_all
    with s True assms show ?thesis
      by (simp del: signed_take_bit_negative_iff signed_take_bit_nonnegative_iff)
  next
    case False
    then have "signed_take_bit 63 ?d \<le> ?d - 2 ^ Suc 63"
      by (intro signed_take_bit_int_less_eq) simp
    moreover have "sint a < 2 ^ 63" and "- (2 ^ 63) \<le> sint b"
      using sint_lt [of a] sint_ge [of b] by simp_all
    ultimately have "signed_take_bit 63 ?d < 0"
      by (simp del: signed_take_bit_negative_iff)
    with s False show ?thesis
      by (simp del: signed_take_bit_negative_iff signed_take_bit_nonnegative_iff)
  qed
qed

lemma int64_rows_back:
  "map (\<lambda>(x, y, w, h). (x, y, w + x, h + y))
     (map (\<lambda>(x1, y1, x2, y2). (x1, y1, x2 - x1, y2 - y1)) b) =
   (b :: (64 word \<times> 64 word \<times> 64 word \<times> 64 word) list)"
  by (induction b) auto

lemma int64_TLWH_check:
  assumes "bboxcheck_TLBR_dtype int64 b"
  shows "bboxcheck_TLWH_dtype int64 (map (\<lambda>(x1, y1, x2, y2). (x1, y1, x2 - x1, y2 - y1)) b) =
         list_all (\<lambda>(x1, y1, x2, y2). sint x2 - sint x1 < 2 ^ 63 \<and> sint y2 - sint y1 < 2 ^ 63) b"
  using assms
  by (induction b)
    (auto simp: bboxcheck_TLBR_dtype_def bboxcheck_TLWH_dtype_def int64_def sint_sub_nonneg)

lemma int64_roundtrip:
  assumes "bboxcheck_TLBR_dtype int64 b"
  shows "bbox_TLBR2TLWH_dtype int64 b d1 =
           Inr (map (\<lambda>(x1, y1, x2, y2). (x1, y1, x2 - x1, y2 - y1)) b)"
    and "and_then (bbox_TLBR2TLWH_dtype int64 b d1) (\<lambda>t. bbox_TLWH2TLBR_dtype int64 t False) = Inr b"
    and "(and_then (bbox_TLBR2TLWH_dtype int64 b d1) (\<lambda>t. bbox_TLWH2TLBR_dtype int64 t True) = Inr b) =
         list_all (\<lambda>(x1, y1, x2, y2). sint x2 - sint x1 < 2 ^ 63 \<and> sint y2 - sint y1 < 2 ^ 63) b"
proof -
  let ?t = "map (\<lambda>(x1, y1, x2, y2). (x1, y1, x2 - x1, y2 - y1)) b"
  show fwd: "bbox_TLBR2TLWH_dtype int64 b d1 = Inr ?t"
    using assms by (simp add: bbox_TLBR2TLWH_dtype_def) (simp add: int64_def)
  have rows_back: "map (\<lambda>(x, y, w, h). (x, y, dt_add int64 w x, dt_add int64 h y)) ?t = b"
    using int64_rows_back [of b] by (simp add: int64_def)
  show "and_then (bbox_TLBR2TLWH_dtype int64 b d1) (\<lambda>t. bbox_TLWH2TLBR_dtype int64 t False) = Inr b"
    unfolding fwd and_then_simps bbox_TLWH2TLBR_dtype_def using rows_back by simp
  show "(and_then (bbox_TLBR2TLWH_dtype int64 b d1) (\<lambda>t. bbox_TLWH2TLBR_dtype int64 t True) = Inr b) =
         list_all (\<lambda>(x1, y1, x2, y2). sint x2 - sint x1 < 2 ^ 63 \<and> sint y2 - sint y1 < 2 ^ 63) b"
    unfolding fwd and_then_simps bbox_TLWH2TLBR_dtype_def int64_TLWH_check [OF assms, symmetric]
    using rows_back by simp
qed

lemma float64_quantum_eq:
  assumes "2 powr real_of_int k \<le> \<bar>x\<bar>" and "\<bar>x\<bar> < 2 powr (real_of_int k + 1)" and "- 1022 \<le> k"
  shows "float64_quantum x = 2 powr (real_of_int k - 52)"
proof -
  have "0 < \<bar>x\<bar>"
    using assms(1) by (smt (verit) powr_gt_zero)
  then have "\<lfloor>log 2 \<bar>x\<bar>\<rfloor> = k"
    using assms(1,2) by (simp add: floor_log_eq_powr_iff)
  then show ?thesis
    using assms(3) by (simp add: float64_quantum_def max_def)
qed

lemma float64_round_examples:
  "float64_round 9007199254740993 = Finite 9007199254740992"
  "float64_round (- 9007199254740992) = Finite (- 9007199254740992)"
  "float64_round 1 = Finite 1"
  "float64_round 5 = Finite 5"
  "float64_round 10 = Finite 10"
proof -
  have q: "float64_quantum 9007199254740993 = 2" "float64_quantum (- 9007199254740992) = 2"
    "float64_quantum 1 = 2 powr (- 52)" "float64_quantum 5 = 2 powr (- 50)"
    "float64_quantum 10 = 2 powr (- 49)"
    using float64_quantum_eq [of 53 9007199254740993] float64_quantum_eq [of 53 "- 9007199254740992"]
      float64_quantum_eq [of 0 1] float64_quantum_eq [of 2 5] float64_quantum_eq [of 3 10]
    by simp_all
  show "float64_round 9007199254740993 = Finite 9007199254740992"
    by (simp add: float64_round_def q round_half_even_def Let_def)
  show "float64_round (- 9007199254740992) = Finite (- 9007199254740992)"
    by (simp add: float64_round_def q round_half_even_def Let_def)
  show "float64_round 1 = Finite 1"
    by (simp add: float64_round_def q round_half_even_def Let_def powr_minus field_simps)
  show "float64_round 5 = Finite 5"
    by (simp add: float64_round_def q round_half_even_def Let_def powr_minus field_simps)
  show "float64_round 10 = Finite 10"
    by (simp add: float64_round_def q round_half_even_def Let_def powr_minus field_simps)
qed

lemma float64_rows_roundtrip:
  assumes "list_all (\<lambda>(x1, y1, x2, y2). x1 \<le> x2 \<and> y1 \<le> y2 \<and>
              float64_round x2 = Finite x2 \<and> float64_round y2 = Finite y2 \<and>
              float64_round (x2 - x1) = Finite (x2 - x1) \<and>
              float64_round (y2 - y1) = Finite (y2 - y1)) rs"
  shows "bboxcheck_TLBR_dtype float64
           (map (\<lambda>(x1, y1, x2, y2). (Finite x1, Finite y1, Finite x2, Finite y2)) rs)"
    and "map (\<lambda>(x1, y1, x2, y2). (x1, y1, dt_sub float64 x2 x1, dt_sub float64 y2 y1))
           (map (\<lambda>(x1, y1, x2, y2). (Finite x1, Finite y1, Finite x2, Finite y2)) rs) =
         map (\<lambda>(x1, y1, x2, y2). (Finite x1, Finite y1, Finite (x2 - x1), Finite (y2 - y1))) rs"
    and "bboxcheck_TLWH_dtype float64
           (map (\<lambda>(x1, y1, x2, y2). (Finite x1, Finite y1, Finite (x2 - x1), Finite (y2 - y1))) rs)"
    and "map (\<lambda>(x, y, w, h). (x, y, dt_add float64 w x, dt_add float64 h y))
           (map (\<lambda>(x1, y1, x2, y2). (Finite x1, Finite y1, Finite (x2 - x1), Finite (y2 - y1))) rs) =
         map (\<lambda>(x1, y1, x2, y2). (Finite x1, Finite y1, Finite x2, Finite y2)) rs"
  using assms
  by (induction rs; auto simp: bboxcheck_TLBR_dtype_def bboxcheck_TLWH_dtype_def float64_def
      float64_sub_def)+

lemma float64_roundtrip:
  assumes "list_all (\<lambda>(x1, y1, x2, y2). x1 \<le> x2 \<and> y1 \<le> y2 \<and>
              float64_round x2 = Finite x2 \<and> float64_round y2 = Finite y2 \<and>
              float64_round (x2 - x1) = Finite (x2 - x1) \<and>
              float64_round (y2 - y1) = Finite (y2 - y1)) rs"
  shows "bbox_TLBR2TLWH_dtype float64
           (map (\<lambda>(x1, y1, x2, y2). (Finite x1, Finite y1, Finite x2, Finite y2)) rs) d1 =
         Inr (map (\<lambda>(x1, y1, x2, y2). (Finite x1, Finite y1, Finite (x2 - x1), Finite (y2 - y1))) rs)"
    and "and_then
           (bbox_TLBR2TLWH_dtype float64
              (map (\<lambda>(x1, y1, x2, y2). (Finite x1, Finite y1, Finite x2, Finite y2)) rs) d1)
           (\<lambda>t. bbox_TLWH2TLBR_dtype float64 t d2) =
         Inr (map (\<lambda>(x1, y1, x2, y2). (Finite x1, Finite y1, Finite x2, Finite y2)) rs)"
  unfolding bbox_TLBR2TLWH_dtype_def
  using float64_rows_roundtrip [OF assms]
  by (simp_all add: and_then_simps bbox_TLWH2TLBR_dtype_def del: map_map)

text \<open>
  C3 as stated fails. On int64 the TLBR row [-2^63, 0, 2^63 - 2, 0] gets the width -2 by
  wrap-around, and \<^verbatim>\<open>bbox_TLWH2TLBR\<close> (debug is the default) rejects the result of
  \<^verbatim>\<open>bbox_TLBR2TLWH\<close>. On float64 the TLBR row [-2^53, 0, 1, 1], all of whose entries are
  doubles, gets the width 2^53 by rounding, and the round trip returns x2 = 0, not 1.
\<close>

theorem bbox_TLBR2TLWH_roundtrip_counterexample:
  "bboxcheck_TLBR_dtype int64 [(- 9223372036854775808, 0, 9223372036854775806, 0)] \<and>
   and_then (bbox_TLBR2TLWH_dtype int64 [(- 9223372036854775808, 0, 9223372036854775806, 0)] True)
     (\<lambda>t. bbox_TLWH2TLBR_dtype int64 t True) = Inl InvalidBoxFormat \<and>
   float64_round (- 9007199254740992) = Finite (- 9007199254740992) \<and>
   float64_round 1 = Finite 1 \<and>
   bboxcheck_TLBR_dtype float64 [(Finite (- 9007199254740992), Finite 0, Finite 1, Finite 1)] \<and>
   and_then (bbox_TLBR2TLWH_dtype float64 [(Finite (- 9007199254740992), Finite 0, Finite 1, Finite 1)] True)
     (\<lambda>t. bbox_TLWH2TLBR_dtype float64 t True) =
   Inr [(Finite (- 9007199254740992), Finite 0, Finite 0, Finite 1)]"
proof -
  have i: "bboxcheck_TLBR_dtype int64 [(- 9223372036854775808, 0, 9223372036854775806, 0)] \<and>
     and_then (bbox_TLBR2TLWH_dtype int64 [(- 9223372036854775808, 0, 9223372036854775806, 0)] True)
       (\<lambda>t. bbox_TLWH2TLBR_dtype int64 t True) = Inl InvalidBoxFormat"
    by (simp add: bboxcheck_TLBR_dtype_def bboxcheck_TLWH_dtype_def bbox_TLBR2TLWH_dtype_def
        bbox_TLWH2TLBR_dtype_def int64_def and_then_simps)
  have z: "float64_round 0 = Finite 0"
    by (simp add: float64_round_def)
  have f: "bboxcheck_TLBR_dtype float64 [(Finite (- 9007199254740992), Finite 0, Finite 1, Finite 1)] \<and>
     and_then (bbox_TLBR2TLWH_dtype float64 [(Finite (- 9007199254740992), Finite 0, Finite 1, Finite 1)] True)
       (\<lambda>t. bbox_TLWH2TLBR_dtype float64 t True) =
     Inr [(Finite (- 9007199254740992), Finite 0, Finite 0, Finite 1)]"
    by (simp add: bboxcheck_TLBR_dtype_def bboxcheck_TLWH_dtype_def bbox_TLBR2TLWH_dtype_def
        bbox_TLWH2TLBR_dtype_def float64_def float64_sub_def and_then_simps float64_round_examples z)
  from i f float64_round_examples(2,3) show ?thesis
    by (intro conjI) simp_all
qed

text \<open>
  C3, as amended. \<^verbatim>\<open>bbox_TLBR2TLWH\<close> computes w = x2 - x1 and h = y2 - y1 in the
  arithmetic of the dtype of the array. For every TLBR array b of dtype int64,
  \<^verbatim>\<open>bbox_TLWH2TLBR\<close> of the result is b again when its debug is off, and with debug on
  exactly when no width x2 - x1 and no height y2 - y1 of b exceeds 2^63 - 1 (none wraps
  around). For every TLBR array of dtype float64 with finite entries whose differences
  x2 - x1 and y2 - y1 are finite doubles themselves (the subtraction neither rounds nor
  overflows), \<^verbatim>\<open>bbox_TLWH2TLBR\<close> of the result is the array again, whatever the debug
  flags are.
\<close>

theorem bbox_TLBR2TLWH_roundtrip_dtype:
  assumes "bboxcheck_TLBR_dtype int64 b"
    and "list_all (\<lambda>(x1, y1, x2, y2). x1 \<le> x2 \<and> y1 \<le> y2 \<and>
              float64_round x2 = Finite x2 \<and> float64_round y2 = Finite y2 \<and>
              float64_round (x2 - x1) = Finite (x2 - x1) \<and>
              float64_round (y2 - y1) = Finite (y2 - y1)) rs"
  shows "bbox_TLBR2TLWH_dtype int64 b d1 =
           Inr (map (\<lambda>(x1, y1, x2, y2). (x1, y1, x2 - x1, y2 - y1)) b) \<and>
         and_then (bbox_TLBR2TLWH_dtype int64 b d1) (\<lambda>t. bbox_TLWH2TLBR_dtype int64 t False) = Inr b \<and>
         (and_then (bbox_TLBR2TLWH_dtype int64 b d1) (\<lambda>t. bbox_TLWH2TLBR_dtype int64 t True) = Inr b) =
           list_all (\<lambda>(x1, y1, x2, y2). sint x2 - sint x1 < 2 ^ 63 \<and> sint y2 - sint y1 < 2 ^ 63) b \<and>
         bbox_TLBR2TLWH_dtype float64
           (map (\<lambda>(x1, y1, x2, y2). (Finite x1, Finite y1, Finite x2, Finite y2)) rs) d1 =
           Inr (map (\<lambda>(x1, y1, x2, y2). (Finite x1, Finite y1, Finite (x2 - x1), Finite (y2 - y1))) rs) \<and>
         and_then
           (bbox_TLBR2TLWH_dtype float64
              (map (\<lambda>(x1, y1, x2, y2). (Finite x1, Finite y1, Finite x2, Finite y2)) rs) d1)
           (\<lambda>t. bbox_TLWH2TLBR_dtype float64 t d2) =
           Inr (map (\<lambda>(x1, y1, x2, y2). (Finite x1, Finite y1, Finite x2, Finite y2)) rs)"
  by (intro conjI int64_roundtrip [OF assms(1)] float64_roundtrip [OF assms(2)])

theorem bbox_TLBR2TLWH_roundtrip_dtype_witness:
  "bboxcheck_TLBR_dtype int64 [(5, 5, 10, 10)] \<and>
   sint (10 :: 64 word) - sint (5 :: 64 word) < 2 ^ 63 \<and>
   float64_round 10 = Finite 10 \<and> float64_round (10 - 5) = Finite (10 - 5) \<and>
   bbox_TLBR2TLWH_dtype int64 [(5, 5, 10, 10)] True = Inr [(5, 5, 5, 5)] \<and>
   and_then (bbox_TLBR2TLWH_dtype int64 [(5, 5, 10, 10)] True)
     (\<lambda>t. bbox_TLWH2TLBR_dtype int64 t True) = Inr [(5, 5, 10, 10)] \<and>
   and_then (bbox_TLBR2TLWH_dtype float64 [(Finite 5, Finite 5, Finite 10, Finite 10)] True)
     (\<lambda>t. bbox_TLWH2TLBR_dtype float64 t True) = Inr [(Finite 5, Finite 5, Finite 10, Finite 10)]"
proof -
  have v: "bboxcheck_TLBR_dtype int64 [(5, 5, 10, 10)]"
    by (simp add: bboxcheck_TLBR_dtype_def int64_def)
  have r: "list_all (\<lambda>(x1, y1, x2, y2). x1 \<le> x2 \<and> y1 \<le> y2 \<and>
              float64_round x2 = Finite x2 \<and> float64_round y2 = Finite y2 \<and>
              float64_round (x2 - x1) = Finite (x2 - x1) \<and>
              float64_round (y2 - y1) = Finite (y2 - y1)) [(5, 5, 10, 10)]"
    by (simp add: float64_round_examples)
  from bbox_TLBR2TLWH_roundtrip_dtype [OF v r, of True True] v
  show ?thesis
    by (simp add: float64_round_examples and_then_simps bbox_TLWH2TLBR_dtype_def
        bboxcheck_TLWH_dtype_def int64_def float64_def)
qed

subsection \<open>Clipping\<close>

lemma clip_bboxes_TLBR_value:
  assumes "debug \<longrightarrow> isinteger W \<and> isinteger H \<and> bboxcheck_TLBR b"
  shows "clip_bboxes_TLBR isinteger b W H debug =
         Inr (map (\<lambda>(x1, y1, x2, y2).
                (max (min x1 W) 0, max (min y1 H) 0, max (min x2 W) 0, max (min y2 H) 0)) b)"
  using assms by (auto simp: clip_bboxes_TLBR_def safe_bbox_def and_then_simps)

lemma clip_rows_in_image:
  assumes "0 \<le> W" "0 \<le> H"
  shows "list_all (\<lambda>(x1, y1, x2, y2).
            0 \<le> x1 \<and> x1 \<le> W \<and> 0 \<le> x2 \<and> x2 \<le> W \<and> 0 \<le> y1 \<and> y1 \<le> H \<and> 0 \<le> y2 \<and> y2 \<le> H)
          (map (\<lambda>(x1, y1, x2, y2).
                (max (min x1 W) 0, max (min y1 H) 0, max (min x2 W) 0, max (min y2 H) 0)) (b :: box list))"
  using assms by (induction b) auto

lemma clip_rows_collapse:
  assumes "0 \<le> W" "0 \<le> H" "bboxcheck_TLBR b"
  shows "list_all2 (\<lambda>(x1, y1, x2, y2) (cx1, cy1, cx2, cy2).
            (W \<le> x1 \<longrightarrow> cx1 = W \<and> cx2 = W) \<and> (x2 \<le> 0 \<longrightarrow> cx1 = 0 \<and> cx2 = 0) \<and>
            (H \<le> y1 \<longrightarrow> cy1 = H \<and> cy2 = H) \<and> (y2 \<le> 0 \<longrightarrow> cy1 = 0 \<and> cy2 = 0) \<and>
            (W \<le> x1 \<or> x2 \<le> 0 \<or> H \<le> y1 \<or> y2 \<le> 0 \<longrightarrow> (cx2 - cx1) * (cy2 - cy1) = 0))
          b
          (map (\<lambda>(x1, y1, x2, y2).
                (max (min x1 W) 0, max (min y1 H) 0, max (min x2 W) 0, max (min y2 H) 0)) b)"
  using assms
proof (induction b)
  case Nil
  then show ?case by simp
next
  case (Cons r b)
  obtain x1 y1 x2 y2 where r: "r = (x1, y1, x2, y2)"
    by (cases r) auto
  from Cons.prems have ord: "x1 \<le> x2" "y1 \<le> y2" and rest: "bboxcheck_TLBR b"
    by (simp_all add: bboxcheck_TLBR_def r)
  have "list_all2 (\<lambda>(x1, y1, x2, y2) (cx1, cy1, cx2, cy2).
            (W \<le> x1 \<longrightarrow> cx1 = W \<and> cx2 = W) \<and> (x2 \<le> 0 \<longrightarrow> cx1 = 0 \<and> cx2 = 0) \<and>
            (H \<le> y1 \<longrightarrow> cy1 = H \<and> cy2 = H) \<and> (y2 \<le> 0 \<longrightarrow> cy1 = 0 \<and> cy2 = 0) \<and>
            (W \<le> x1 \<or> x2 \<le> 0 \<or> H \<le> y1 \<or> y2 \<le> 0 \<longrightarrow> (cx2 - cx1) * (cy2 - cy1) = 0))
          b
          (map (\<lambda>(x1, y1, x2, y2).
                (max (min x1 W) 0, max (min y1 H) 0, max (min x2 W) 0, max (min y2 H) 0)) b)"
    using Cons.IH Cons.prems(1,2) rest by blast
  moreover have "(W \<le> x1 \<longrightarrow> max (min x1 W) 0 = W \<and> max (min x2 W) 0 = W)"
    using ord Cons.prems(1) by auto
  moreover have "(x2 \<le> 0 \<longrightarrow> max (min x1 W) 0 = 0 \<and> max (min x2 W) 0 = 0)"
    using ord Cons.prems(1) by auto
  moreover have "(H \<le> y1 \<longrightarrow> max (min y1 H) 0 = H \<and> max (min y2 H) 0 = H)"
    using ord Cons.prems(2) by auto
  moreover have "(y2 \<le> 0 \<longrightarrow> max (min y1 H) 0 = 0 \<and> max (min y2 H) 0 = 0)"
    using ord Cons.prems(2) by auto
  ultimately show ?case
    by (simp add: r)
qed

lemma clip_rows_ordered:
  assumes "bboxcheck_TLBR b"
  shows "bboxcheck_TLBR (map (\<lambda>(x1, y1, x2, y2).
                (max (min x1 W) 0, max (min y1 H) 0, max (min x2 W) 0, max (min y2 H) 0)) b)"
  using assms by (induction b) (auto simp: bboxcheck_TLBR_def)

text \<open>
  C5. Let the image size satisfy W \<ge> 0 and H \<ge> 0 and let b be a TLBR array (x1 \<le> x2 and
  y1 \<le> y2 in each row); with debug, let \<^verbatim>\<open>isinteger\<close> accept W and H. Then
  \<^verbatim>\<open>clip_bboxes_TLBR\<close> returns an array and raises nothing; every x of the result lies in
  [0, W] and every y in [0, H]; a row that lies right of, left of, below or above the
  image is collapsed onto that edge of the image and has area zero. The box
  [-3, -2, 50, 60] is clipped to [0, 0, 40, 40] in a 40 x 40 image.
\<close>

theorem clip_bboxes_TLBR_in_image:
  assumes "0 \<le> W" and "0 \<le> H" and "bboxcheck_TLBR b"
    and "debug \<longrightarrow> isinteger W \<and> isinteger H"
  shows "(\<exists>out. clip_bboxes_TLBR isinteger b W H debug = Inr out \<and>
           list_all (\<lambda>(x1, y1, x2, y2).
             0 \<le> x1 \<and> x1 \<le> W \<and> 0 \<le> x2 \<and> x2 \<le> W \<and> 0 \<le> y1 \<and> y1 \<le> H \<and> 0 \<le> y2 \<and> y2 \<le> H) out \<and>
           list_all2 (\<lambda>(x1, y1, x2, y2) (cx1, cy1, cx2, cy2).
             (W \<le> x1 \<longrightarrow> cx1 = W \<and> cx2 = W) \<and> (x2 \<le> 0 \<longrightarrow> cx1 = 0 \<and> cx2 = 0) \<and>
             (H \<le> y1 \<longrightarrow> cy1 = H \<and> cy2 = H) \<and> (y2 \<le> 0 \<longrightarrow> cy1 = 0 \<and> cy2 = 0) \<and>
             (W \<le> x1 \<or> x2 \<le> 0 \<or> H \<le> y1 \<or> y2 \<le> 0 \<longrightarrow> (cx2 - cx1) * (cy2 - cy1) = 0)) b out) \<and>
         ((debug \<longrightarrow> isinteger 40) \<longrightarrow>
           clip_bboxes_TLBR isinteger [(- 3, - 2, 50, 60)] 40 40 debug = Inr [(0, 0, 40, 40)])"
proof -
  let ?out = "map (\<lambda>(x1, y1, x2, y2).
                (max (min x1 W) 0, max (min y1 H) 0, max (min x2 W) 0, max (min y2 H) 0)) b"
  have "clip_bboxes_TLBR isinteger b W H debug = Inr ?out"
    using assms(3,4) by (intro clip_bboxes_TLBR_value) simp
  moreover note clip_rows_in_image [OF assms(1,2), of b] clip_rows_collapse [OF assms(1,2,3)]
  moreover have "(debug \<longrightarrow> isinteger 40) \<longrightarrow>
           clip_bboxes_TLBR isinteger [(- 3, - 2, 50, 60)] 40 40 debug = Inr [(0, 0, 40, 40)]"
    by (simp add: clip_bboxes_TLBR_def safe_bbox_def and_then_simps bboxcheck_TLBR_def)
  ultimately show ?thesis
    by blast
qed

theorem clip_bboxes_TLBR_in_image_witness:
  "clip_bboxes_TLBR (\<lambda>x. x \<in> \<int>) [(- 3, - 2, 50, 60), (45, 50, 70, 80), (- 9, 1, - 4, 3)] 40 40 True =
     Inr [(0, 0, 40, 40), (40, 40, 40, 40), (0, 1, 0, 3)]"
proof -
  have h: "True \<longrightarrow> (40 :: real) \<in> \<int> \<and> (40 :: real) \<in> \<int>"
    by simp
  have v: "bboxcheck_TLBR [(- 3, - 2, 50, 60), (45, 50, 70, 80), (- 9, 1, - 4, 3)]"
    by (simp add: bboxcheck_TLBR_def)
  have "0 \<le> (40 :: real)"
    by simp
  from clip_bboxes_TLBR_in_image [where isinteger = "\<lambda>x. x \<in> \<int>" and debug = True and W = 40 and H = 40, OF this this v h]
  show ?thesis
    by (simp add: clip_bboxes_TLBR_def safe_bbox_def and_then_simps bboxcheck_TLBR_def)
qed

text \<open>
  C10. Clipping keeps the order of the corners: for a TLBR array (x1 \<le> x2 and y1 \<le> y2
  in each row) and an image size W \<ge> 0, H \<ge> 0 (accepted by \<^verbatim>\<open>isinteger\<close> when debug is
  set), \<^verbatim>\<open>clip_bboxes_TLBR\<close> returns an array that passes \<^verbatim>\<open>bboxcheck_TLBR\<close> again, and
  the width and height of each of its rows are not negative.
\<close>

theorem clip_bboxes_TLBR_keeps_order:
  assumes "bboxcheck_TLBR b" and "0 \<le> W" and "0 \<le> H"
    and "debug \<longrightarrow> isinteger W \<and> isinteger H"
  shows "\<exists>out. clip_bboxes_TLBR isinteger b W H debug = Inr out \<and> bboxcheck_TLBR out \<and>
           list_all (\<lambda>(x1, y1, x2, y2). 0 \<le> x2 - x1 \<and> 0 \<le> y2 - y1) out"
proof -
  let ?out = "map (\<lambda>(x1, y1, x2, y2).
                (max (min x1 W) 0, max (min y1 H) 0, max (min x2 W) 0, max (min y2 H) 0)) b"
  have "clip_bboxes_TLBR isinteger b W H debug = Inr ?out"
    using assms(1,4) by (intro clip_bboxes_TLBR_value) simp
  moreover have o: "bboxcheck_TLBR ?out"
    using assms(1) by (rule clip_rows_ordered)
  moreover have "list_all (\<lambda>(x1, y1, x2, y2). 0 \<le> x2 - x1 \<and> 0 \<le> y2 - y1) ?out"
    using o unfolding bboxcheck_TLBR_def
    by (rule list.pred_mono_strong) auto
  ultimately show ?thesis
    by blast
qed

theorem clip_bboxes_TLBR_keeps_order_witness:
  "\<exists>out. clip_bboxes_TLBR (\<lambda>x. x \<in> \<int>) [(- 3, - 2, 50, 60), (10, 45, 20, 70)] 40 40 True = Inr out \<and>
     bboxcheck_TLBR out \<and> out = [(0, 0, 40, 40), (10, 40, 20, 40)]"
proof -
  have h: "True \<longrightarrow> (40 :: real) \<in> \<int> \<and> (40 :: real) \<in> \<int>"
    by simp
  have v: "bboxcheck_TLBR [(- 3, - 2, 50, 60), (10, 45, 20, 70)]"
    by (simp add: bboxcheck_TLBR_def)
  have p: "0 \<le> (40 :: real)"
    by simp
  from clip_bboxes_TLBR_keeps_order [where isinteger = "\<lambda>x. x \<in> \<int>" and debug = True and W = 40 and H = 40, OF v p p h]
  show ?thesis
    by (simp add: clip_bboxes_TLBR_def safe_bbox_def and_then_simps bboxcheck_TLBR_def)
qed

lemma bbox_TLWH2TLBR_value:
  assumes "bboxcheck_TLWH b"
  shows "bbox_TLWH2TLBR b debug = Inr (map (\<lambda>(x, y, w, h). (x, y, w + x, h + y)) b)"
  using assms by (simp add: bbox_TLWH2TLBR_def safe_bbox_def and_then_simps)

lemma bbox_TLBR2TLWH_value:
  assumes "bboxcheck_TLBR b"
  shows "bbox_TLBR2TLWH b debug = Inr (map (\<lambda>(x1, y1, x2, y2). (x1, y1, x2 - x1, y2 - y1)) b)"
  using assms by (simp add: bbox_TLBR2TLWH_def safe_bbox_def and_then_simps)

lemma clip_TLWH_rows:
  "map (\<lambda>(x1, y1, x2, y2). (x1, y1, x2 - x1, y2 - y1))
     (map (\<lambda>(x1, y1, x2, y2).
            (max (min x1 W) 0, max (min y1 H) 0, max (min x2 W) 0, max (min y2 H) 0))
        (map (\<lambda>(x, y, w, h). (x, y, w + x, h + y)) b)) =
   map (\<lambda>(x, y, w, h).
          (max (min x W) 0, max (min y H) 0,
           max (min (w + x) W) 0 - max (min x W) 0, max (min (h + y) H) 0 - max (min y H) 0))
     (b :: box list)"
  by (induction b) auto

lemma clip_composition_value:
  assumes "bboxcheck_TLWH b" and "d2 \<longrightarrow> isinteger W \<and> isinteger H"
  shows "and_then (bbox_TLWH2TLBR b d1) (\<lambda>t.
           and_then (clip_bboxes_TLBR isinteger t W H d2) (\<lambda>c. bbox_TLBR2TLWH c d3)) =
         Inr (map (\<lambda>(x, y, w, h).
                (max (min x W) 0, max (min y H) 0,
                 max (min (w + x) W) 0 - max (min x W) 0, max (min (h + y) H) 0 - max (min y H) 0)) b)"
proof -
  let ?t = "map (\<lambda>(x, y, w, h). (x, y, w + x, h + y)) b"
  let ?c = "map (\<lambda>(x1, y1, x2, y2).
              (max (min x1 W) 0, max (min y1 H) 0, max (min x2 W) 0, max (min y2 H) 0)) ?t"
  have t: "bbox_TLWH2TLBR b d1 = Inr ?t"
    using assms(1) by (rule bbox_TLWH2TLBR_value)
  have tv: "bboxcheck_TLBR ?t"
    using assms(1) by (rule TLWH2TLBR_is_TLBR)
  have c: "clip_bboxes_TLBR isinteger ?t W H d2 = Inr ?c"
    using tv assms(2) by (intro clip_bboxes_TLBR_value) simp
  have "bboxcheck_TLBR ?c"
    using tv by (rule clip_rows_ordered)
  then have "bbox_TLBR2TLWH ?c d3 = Inr (map (\<lambda>(x1, y1, x2, y2). (x1, y1, x2 - x1, y2 - y1)) ?c)"
    by (rule bbox_TLBR2TLWH_value)
  with t c show ?thesis
    by (simp only: and_then_simps clip_TLWH_rows)
qed

lemma clip_bboxes_TLWH_unfold:
  assumes "bboxcheck_TLWH b"
  shows "clip_bboxes_TLWH isinteger b W H debug =
           and_then (bbox_TLWH2TLBR b debug) (\<lambda>t.
             and_then (clip_bboxes_TLBR isinteger t W H debug) (\<lambda>c. bbox_TLBR2TLWH c debug))"
proof (cases "debug \<and> \<not> (isinteger W \<and> isinteger H)")
  case True
  then have "clip_bboxes_TLWH isinteger b W H debug = Inl InvalidImageSize"
    by (simp add: clip_bboxes_TLWH_def safe_bbox_def and_then_simps)
  moreover have "and_then (bbox_TLWH2TLBR b debug) (\<lambda>t.
             and_then (clip_bboxes_TLBR isinteger t W H debug) (\<lambda>c. bbox_TLBR2TLWH c debug)) =
           Inl InvalidImageSize"
    using True assms
    by (simp add: bbox_TLWH2TLBR_value clip_bboxes_TLBR_def safe_bbox_def and_then_simps)
  ultimately show ?thesis by simp
next
  case False
  with assms show ?thesis
    by (auto simp: clip_bboxes_TLWH_def safe_bbox_def and_then_simps)
qed

lemma clip_bboxes_TLWH_value:
  assumes "bboxcheck_TLWH b" and "debug \<longrightarrow> isinteger W \<and> isinteger H"
  shows "clip_bboxes_TLWH isinteger b W H debug =
         Inr (map (\<lambda>(x, y, w, h).
                (max (min x W) 0, max (min y H) 0,
                 max (min (w + x) W) 0 - max (min x W) 0, max (min (h + y) H) 0 - max (min y H) 0)) b)"
  using assms by (simp only: clip_bboxes_TLWH_unfold clip_composition_value)

text \<open>
  C7. For every TLWH array b (w \<ge> 0 and h \<ge> 0 in each row) and every image size,
  \<^verbatim>\<open>clip_bboxes_TLWH\<close> returns what the composition of \<^verbatim>\<open>bbox_TLWH2TLBR\<close>,
  \<^verbatim>\<open>clip_bboxes_TLBR\<close> and \<^verbatim>\<open>bbox_TLBR2TLWH\<close> returns under the same debug flag, be it an
  array or an error. When \<^verbatim>\<open>isinteger\<close> accepts the image size, the composition returns
  the same array under any debug flags: the top-left corner and the bottom-right corner
  x + w, y + h are clipped and the size is their difference.
\<close>

theorem clip_bboxes_TLWH_is_composition:
  assumes "bboxcheck_TLWH b"
  shows "clip_bboxes_TLWH isinteger b W H debug =
           and_then (bbox_TLWH2TLBR b debug) (\<lambda>t.
             and_then (clip_bboxes_TLBR isinteger t W H debug) (\<lambda>c. bbox_TLBR2TLWH c debug)) \<and>
         (isinteger W \<and> isinteger H \<longrightarrow>
            clip_bboxes_TLWH isinteger b W H debug =
              and_then (bbox_TLWH2TLBR b d1) (\<lambda>t.
                and_then (clip_bboxes_TLBR isinteger t W H d2) (\<lambda>c. bbox_TLBR2TLWH c d3)) \<and>
            clip_bboxes_TLWH isinteger b W H debug =
              Inr (map (\<lambda>(x, y, w, h).
                     (max (min x W) 0, max (min y H) 0,
                      max (min (w + x) W) 0 - max (min x W) 0,
                      max (min (h + y) H) 0 - max (min y H) 0)) b))"
proof (intro conjI impI)
  show "clip_bboxes_TLWH isinteger b W H debug =
           and_then (bbox_TLWH2TLBR b debug) (\<lambda>t.
             and_then (clip_bboxes_TLBR isinteger t W H debug) (\<lambda>c. bbox_TLBR2TLWH c debug))"
    using assms by (rule clip_bboxes_TLWH_unfold)
next
  assume ok: "isinteger W \<and> isinteger H"
  then show "clip_bboxes_TLWH isinteger b W H debug =
              Inr (map (\<lambda>(x, y, w, h).
                     (max (min x W) 0, max (min y H) 0,
                      max (min (w + x) W) 0 - max (min x W) 0,
                      max (min (h + y) H) 0 - max (min y H) 0)) b)"
    using assms by (intro clip_bboxes_TLWH_value) simp_all
  moreover have "and_then (bbox_TLWH2TLBR b d1) (\<lambda>t.
                and_then (clip_bboxes_TLBR isinteger t W H d2) (\<lambda>c. bbox_TLBR2TLWH c d3)) =
              Inr (map (\<lambda>(x, y, w, h).
                     (max (min x W) 0, max (min y H) 0,
                      max (min (w + x) W) 0 - max (min x W) 0,
                      max (min (h + y) H) 0 - max (min y H) 0)) b)"
    using assms ok by (intro clip_composition_value) simp_all
  ultimately show "clip_bboxes_TLWH isinteger b W H debug =
              and_then (bbox_TLWH2TLBR b d1) (\<lambda>t.
                and_then (clip_bboxes_TLBR isinteger t W H d2) (\<lambda>c. bbox_TLBR2TLWH c d3))"
    by simp
qed

theorem clip_bboxes_TLWH_is_composition_witness:
  "bboxcheck_TLWH [(- 3, - 2, 53, 62), (10, 45, 10, 25)] \<and>
   clip_bboxes_TLWH (\<lambda>x. x \<in> \<int>) [(- 3, - 2, 53, 62), (10, 45, 10, 25)] 40 40 True =
     Inr [(0, 0, 40, 40), (10, 40, 10, 0)] \<and>
   and_then (bbox_TLWH2TLBR [(- 3, - 2, 53, 62), (10, 45, 10, 25)] True) (\<lambda>t.
     and_then (clip_bboxes_TLBR (\<lambda>x. x \<in> \<int>) t 40 40 True) (\<lambda>c. bbox_TLBR2TLWH c True)) =
     Inr [(0, 0, 40, 40), (10, 40, 10, 0)]"
proof -
  have v: "bboxcheck_TLWH [(- 3, - 2, 53, 62), (10, 45, 10, 25)]"
    by (simp add: bboxcheck_TLWH_def)
  from clip_bboxes_TLWH_is_composition
    [where isinteger = "\<lambda>x. x \<in> \<int>" and debug = True and W = 40 and H = 40
       and ?d1.0 = True and ?d2.0 = True and ?d3.0 = True, OF v]
  show ?thesis
    using v
    by (simp add: clip_bboxes_TLWH_def bbox_TLWH2TLBR_def clip_bboxes_TLBR_def bbox_TLBR2TLWH_def
        safe_bbox_def and_then_simps bboxcheck_TLBR_def bboxcheck_TLWH_def)
qed

text \<open>
  C6 as stated fails: with debug off, a width of -1 is not a non-negative integer, and
  both clipping functions return an array.
\<close>

theorem clip_bboxes_size_check_counterexample:
  "\<not> nonneg_integer (- 1) \<and>
   clip_bboxes_TLBR nonneg_integer [(0, 0, 1, 1)] (- 1) 5 False = Inr [(0, 0, 0, 1)] \<and>
   clip_bboxes_TLWH nonneg_integer [(0, 0, 1, 1)] (- 1) 5 False = Inr [(0, 0, 0, 1)]"
  by (simp add: nonneg_integer_def clip_bboxes_TLBR_def clip_bboxes_TLWH_def bbox_TLWH2TLBR_def
      bbox_TLBR2TLWH_def safe_bbox_def and_then_simps)

text \<open>
  C6, as amended. With debug set (the default), \<^verbatim>\<open>clip_bboxes_TLBR\<close> and
  \<^verbatim>\<open>clip_bboxes_TLWH\<close> fail with InvalidImageSize exactly when \<^verbatim>\<open>isinteger\<close> rejects the
  image width or the image height; the sign of the size is not tested by the functions
  themselves. The result is then the error alone: no row has been clipped. With debug
  off the size is not tested at all and both functions return the clipped array.
\<close>

theorem clip_bboxes_size_check:
  "(clip_bboxes_TLBR isinteger b W H True = Inl InvalidImageSize) = (\<not> (isinteger W \<and> isinteger H)) \<and>
   (clip_bboxes_TLWH isinteger b W H True = Inl InvalidImageSize) = (\<not> (isinteger W \<and> isinteger H)) \<and>
   clip_bboxes_TLBR isinteger b W H False =
     Inr (map (\<lambda>(x1, y1, x2, y2).
            (max (min x1 W) 0, max (min y1 H) 0, max (min x2 W) 0, max (min y2 H) 0)) b) \<and>
   clip_bboxes_TLWH isinteger b W H False =
     Inr (map (\<lambda>(x, y, w, h).
            (max (min x W) 0, max (min y H) 0,
             max (min (w + x) W) 0 - max (min x W) 0,
             max (min (h + y) H) 0 - max (min y H) 0)) b)"
proof -
  have a: "(clip_bboxes_TLBR isinteger b W H True = Inl InvalidImageSize) = (\<not> (isinteger W \<and> isinteger H))"
    by (auto simp: clip_bboxes_TLBR_def safe_bbox_def and_then_simps)
  have b: "(clip_bboxes_TLWH isinteger b W H True = Inl InvalidImageSize) = (\<not> (isinteger W \<and> isinteger H))"
  proof (cases "isinteger W \<and> isinteger H")
    case False
    then show ?thesis
      by (auto simp: clip_bboxes_TLWH_def safe_bbox_def and_then_simps)
  next
    case True
    show ?thesis
    proof (cases "bboxcheck_TLWH b")
      case False
      with True show ?thesis
        by (auto simp: clip_bboxes_TLWH_def safe_bbox_def and_then_simps)
    next
      case v: True
      from clip_bboxes_TLWH_value [OF v, of True isinteger W H] True
      show ?thesis by simp
    qed
  qed
  have c: "clip_bboxes_TLBR isinteger b W H False =
     Inr (map (\<lambda>(x1, y1, x2, y2).
            (max (min x1 W) 0, max (min y1 H) 0, max (min x2 W) 0, max (min y2 H) 0)) b)"
    by (simp add: clip_bboxes_TLBR_def safe_bbox_def and_then_simps)
  have d: "clip_bboxes_TLWH isinteger b W H False =
     Inr (map (\<lambda>(x, y, w, h).
            (max (min x W) 0, max (min y H) 0,
             max (min (w + x) W) 0 - max (min x W) 0,
             max (min (h + y) H) 0 - max (min y H) 0)) b)"
    by (simp add: clip_bboxes_TLWH_def clip_bboxes_TLBR_def bbox_TLWH2TLBR_def bbox_TLBR2TLWH_def
        safe_bbox_def and_then_simps clip_TLWH_rows del: map_map)
  show ?thesis
    by (intro conjI a b c d)
qed

theorem clip_bboxes_size_check_witness:
  "clip_bboxes_TLBR nonneg_integer [(0, 0, 1, 1)] (- 1) 5 True = Inl InvalidImageSize \<and>
   clip_bboxes_TLWH nonneg_integer [(0, 0, 1, 1)] (- 1) 5 True = Inl InvalidImageSize \<and>
   clip_bboxes_TLBR nonneg_integer [(0, 0, 1, 1)] 5 5 True \<noteq> Inl InvalidImageSize"
proof -
  have "\<not> nonneg_integer (- 1)" and "nonneg_integer 5"
    by (simp_all add: nonneg_integer_def)
  with clip_bboxes_size_check [of nonneg_integer "[(0, 0, 1, 1)]" "- 1" 5]
    clip_bboxes_size_check [of nonneg_integer "[(0, 0, 1, 1)]" 5 5]
  show ?thesis
    by simp
qed

subsection \<open>Centre crop\<close>

text \<open>
  C4 fails on the code. For the crop size [2, 3] and the image size W = 5, H = 7, all
  integers, \<^verbatim>\<open>im_width / 2\<close> is 2 and \<^verbatim>\<open>im_height / 2\<close> is 3 before \<^verbatim>\<open>np.ceil\<close> sees
  them: the centre is (2, 3), not (ceil (5 / 2), ceil (7 / 2)) = (3, 4), and the function
  returns [[1, 2, 2, 3]] (and [[1, 1, 2, 3]] for the float crop size [2., 3.]), where the
  top-left corner of the claim is (3 - 1, 4 - 2) = (2, 2).
\<close>

theorem get_center_crop_bbox_floor_centre:
  "get_center_crop_bbox (CropSize [(PyInt 2, PyInt 3)]) (Some (PyInt 5)) (Some (PyInt 7)) True =
     Inr [(1, 2, 2, 3)] \<and>
   get_center_crop_bbox (CropSize [(PyFloat 2, PyFloat 3)]) (Some (PyInt 5)) (Some (PyInt 7)) True =
     Inr [(1, 1, 2, 3)] \<and>
   (\<lceil>5 / 2 :: real\<rceil> - \<lceil>2 / 2 :: real\<rceil>, \<lceil>7 / 2 :: real\<rceil> - \<lceil>3 / 2 :: real\<rceil>) = (2, 2)"
  by (simp add: astype_int64_def ceil_half_def half_def scalar_value_def)

text \<open>
  With a float image size and float crop sizes the divisions are true divisions, and the
  top-left corner is (ceil (W / 2) - ceil (crop_w / 2), ceil (H / 2) - ceil (crop_h / 2)).
\<close>

lemma get_center_crop_bbox_float:
  "get_center_crop_bbox (CropSize (map (\<lambda>(w, h). (PyFloat w, PyFloat h)) crops))
       (Some (PyFloat W)) (Some (PyFloat H)) debug =
     Inr (map (\<lambda>(crop_width, crop_height).
            (astype_int64 (real_of_int (\<lceil>W / 2\<rceil> - \<lceil>crop_width / 2\<rceil>)),
             astype_int64 (real_of_int (\<lceil>H / 2\<rceil> - \<lceil>crop_height / 2\<rceil>)),
             astype_int64 crop_width, astype_int64 crop_height)) crops)"
  by (simp add: ceil_half_def half_def scalar_value_def split_def comp_def)

subsection \<open>Regression targets\<close>

text \<open>
  C8. For every array of deltas and either value of debug, \<^verbatim>\<open>bbox_transform_inv\<close> of an
  anchor array without rows returns (it raises nothing) an array without rows that has
  the column count of the deltas.
\<close>

theorem bbox_transform_inv_no_anchor:
  "bbox_transform_inv [] deltas debug = Inr \<lparr>shape1 = shape1 deltas, rows = []\<rparr>"
  by (simp add: bbox_transform_inv_def)

theorem bbox_transform_inv_no_anchor_witness:
  "bbox_transform_inv [] \<lparr>shape1 = 8, rows = [[(0, 0, 0, 0), (1, 1, 1, 1)]]\<rparr> True =
     Inr \<lparr>shape1 = 8, rows = []\<rparr>"
  using bbox_transform_inv_no_anchor [of "\<lparr>shape1 = 8, rows = [[(0, 0, 0, 0), (1, 1, 1, 1)]]\<rparr>" True]
  by simp

text \<open>
  Decoding the encoding of a target gives back x1 and y1 of the target, and x2 + 1 and
  y2 + 1 in place of x2 and y2: \<^verbatim>\<open>bbox_transform\<close> counts the width as x2 - x1 + 1, and
  \<^verbatim>\<open>bbox_transform_inv\<close> puts the right edge at centre + width / 2 without taking the 1
  away again.
\<close>

lemma pred_box_targets:
  assumes "targets_finite ((ex1, ey1, ex2, ey2), (gx1, gy1, gx2, gy2))"
  shows "pred_box (ex1, ey1, ex2, ey2) (targets ((ex1, ey1, ex2, ey2), (gx1, gy1, gx2, gy2))) =
         (gx1, gy1, gx2 + 1, gy2 + 1)"
proof -
  let ?ew = "ex2 - ex1 + 1" and ?eh = "ey2 - ey1 + 1"
  let ?gw = "gx2 - gx1 + 1" and ?gh = "gy2 - gy1 + 1"
  from assms have ew: "?ew \<noteq> 0" and eh: "?eh \<noteq> 0"
    and rw: "0 < ?gw / ?ew" and rh: "0 < ?gh / ?eh"
    by (simp_all add: targets_finite_def)
  have w: "exp (ln (?gw / ?ew)) * ?ew = ?gw"
    using rw ew by simp
  have h: "exp (ln (?gh / ?eh)) * ?eh = ?gh"
    using rh eh by simp
  have cx: "(gx1 + 0.5 * ?gw - (ex1 + 0.5 * ?ew)) / ?ew * ?ew + (ex1 + 0.5 * ?ew) = gx1 + 0.5 * ?gw"
    using ew by simp
  have cy: "(gy1 + 0.5 * ?gh - (ey1 + 0.5 * ?eh)) / ?eh * ?eh + (ey1 + 0.5 * ?eh) = gy1 + 0.5 * ?gh"
    using eh by simp
  show ?thesis
    unfolding pred_box_def targets_def Let_def prod.case w h cx cy
    by (simp add: field_simps)
qed

lemma decode_encode_rows:
  assumes "length ex = length gt" and "list_all targets_finite (zip ex gt)"
  shows "map (\<lambda>(b, ds). map (pred_box b) ds) (zip ex (map (\<lambda>p. [targets p]) (zip ex gt))) =
         map (\<lambda>(x1, y1, x2, y2). [(x1, y1, x2 + 1, y2 + 1)]) gt"
  using assms
proof (induction ex gt rule: list_induct2)
  case Nil
  then show ?case by simp
next
  case (Cons a ex g gt)
  obtain ex1 ey1 ex2 ey2 where a: "a = (ex1, ey1, ex2, ey2)"
    by (cases a) auto
  obtain gx1 gy1 gx2 gy2 where g: "g = (gx1, gy1, gx2, gy2)"
    by (cases g) auto
  from Cons.prems have "targets_finite (a, g)" and "list_all targets_finite (zip ex gt)"
    by simp_all
  with Cons.IH show ?case
    by (simp add: a g pred_box_targets)
qed

lemma bbox_transform_inv_of_bbox_transform:
  assumes "ex \<noteq> []" and "length ex = length gt" and "list_all targets_finite (zip ex gt)"
  shows "and_then (bbox_transform ex gt) (\<lambda>deltas. bbox_transform_inv ex deltas debug) =
         Inr \<lparr>shape1 = 4, rows = map (\<lambda>(x1, y1, x2, y2). [(x1, y1, x2 + 1, y2 + 1)]) gt\<rparr>"
proof -
  have "bbox_transform ex gt = Inr \<lparr>shape1 = 4, rows = map (\<lambda>p. [targets p]) (zip ex gt)\<rparr>"
    using assms(2,3) by (simp add: bbox_transform_def broadcast_def and_then_simps)
  moreover have "bbox_transform_inv ex \<lparr>shape1 = 4, rows = map (\<lambda>p. [targets p]) (zip ex gt)\<rparr> debug =
      Inr \<lparr>shape1 = 4, rows = map (\<lambda>(x1, y1, x2, y2). [(x1, y1, x2 + 1, y2 + 1)]) gt\<rparr>"
    using assms decode_encode_rows [OF assms(2,3)]
    by (simp add: bbox_transform_inv_def del: map_map)
  ultimately show ?thesis
    by (simp add: and_then_simps)
qed

text \<open>
  C1 fails on the code. For the anchor [0, 0, 9, 9] (width and height 10) and the target
  [0, 0, 9, 9], \<^verbatim>\<open>bbox_transform_inv\<close> of the anchor and of the targets that
  \<^verbatim>\<open>bbox_transform\<close> computes is [0, 0, 10, 10]: x2 and y2 are off by 1, not within 1e-5.
\<close>

theorem bbox_transform_inv_off_by_one:
  "and_then (bbox_transform [(0, 0, 9, 9)] [(0, 0, 9, 9)])
     (\<lambda>deltas. bbox_transform_inv [(0, 0, 9, 9)] deltas True) =
   Inr \<lparr>shape1 = 4, rows = [[(0, 0, 10, 10)]]\<rparr>"
  by (simp add: bbox_transform_def bbox_transform_inv_def broadcast_def and_then_simps
      targets_finite_def targets_def pred_box_def)

subsection \<open>Enlarging a box\<close>

lemma py_max_single: "py_max [a] [b] = Inr [max a b]"
  by (simp add: py_max_def truth_value_def and_then_simps max_def)

text \<open>
  On an array of one row \<^verbatim>\<open>bbox_enlarge\<close> does what its docstring says: the extra width
  is the larger of width times ratio and minimum minus width, and half of it goes to
  each side.
\<close>

lemma bbox_enlarge_single:
  assumes "x1 \<le> x2" and "y1 \<le> y2"
  shows "bbox_enlarge [(x1, y1, x2, y2)] ratio width_ratio height_ratio
           min_length min_width min_height debug =
         (let (rw, rh) = (case (width_ratio, height_ratio) of
                            (Some wr, Some hr) \<Rightarrow> (wr, hr) | _ \<Rightarrow> (ratio, ratio));
              (mw, mh) = (case (min_height, min_width) of
                            (Some h, Some w) \<Rightarrow> (w, h) | _ \<Rightarrow> (min_length, min_length));
              w = max ((x2 - x1) * rw) (mw - (x2 - x1));
              h = max ((y2 - y1) * rh) (mh - (y2 - y1))
          in Inr [(x1 - w / 2, y1 - h / 2, x2 + w / 2, y2 + h / 2)])"
  using assms
  by (simp add: bbox_enlarge_def bboxcheck_TLBR_def py_max_single and_then_simps Let_def
      split: prod.splits option.splits)

text \<open>
  C9 fails on the code. On an array of two rows the builtin \<^verbatim>\<open>max\<close> raises ValueError:
  \<^verbatim>\<open>bbox_enlarge\<close> enlarges no box of [[0, 0, 10, 10], [0, 0, 20, 20]]. On the single row
  [[0, 0, 10, 10]] with ratio 0.2 and min_length 0 it returns [[-1, -1, 11, 11]].
\<close>

theorem bbox_enlarge_two_rows:
  "bbox_enlarge [(0, 0, 10, 10), (0, 0, 20, 20)] 0.2 None None 0 None None True = Inl ValueError \<and>
   bbox_enlarge [(0, 0, 10, 10)] 0.2 None None 0 None None True = Inr [(- 1, - 1, 11, 11)]"
  by (simp add: bbox_enlarge_def bboxcheck_TLBR_def py_max_def truth_value_def and_then_simps)













end
